theory Spec2Isabelle
  imports Main
begin

section \<open>Data model\<close>

text \<open>
  \<^verbatim>\<open>InstrumentationConfig\<close> of \<^verbatim>\<open>main.go\<close>. Every field is a Go pointer, so
  every field is an option: \<open>None\<close> is the nil pointer. The header map is a Go
  \<^verbatim>\<open>map[string]string\<close>, modelled as a partial function.
\<close>

record InstrumentationConfig =
  BaseURL :: "string option"
  APIKey :: "string option"
  PublicAPIKey :: "string option"
  Headers :: "(string \<rightharpoonup> string) option"
  ServiceName :: "string option"
  InstanceID :: "string option"
  Env :: "string option"
  GitCommit :: "string option"
  GitHubURL :: "string option"

text \<open>
  The process environment: \<^verbatim>\<open>os.LookupEnv(key)\<close> is \<open>env key\<close>, with \<open>None\<close> for a
  variable that is not set and \<open>Some ''''\<close> for one set to the empty string.
\<close>

type_synonym environ = "string \<rightharpoonup> string"

text \<open>
  Go errors. \<^verbatim>\<open>fmt.Errorf\<close> without \<^verbatim>\<open>%w\<close> gives a plain message, with \<^verbatim>\<open>%w\<close> it
  wraps the given error behind the text of the format string before the verb, and
  \<^verbatim>\<open>errors.Join\<close> builds an error holding a list of errors. A nil \<^verbatim>\<open>error\<close> is \<open>None\<close>.
\<close>

datatype error =
  errorString string
  | wrapError string error
  | joinError "error list"

text \<open>
  \<^verbatim>\<open>errors.Join\<close> of the standard library: nil arguments are discarded, the result is
  nil when nothing is left, and otherwise one error holding the others in order.
\<close>

definition errors_Join :: "error option list \<Rightarrow> error option" where
  "errors_Join errs =
     (case List.map_filter (\<lambda>e. e) errs of
        [] \<Rightarrow> None
      | e # es \<Rightarrow> Some (joinError (e # es)))"

subsection \<open>The wrapped SDK\<close>

text \<open>
  The OpenTelemetry SDK is a dependency of the repository. Its objects are represented
  by the options the code builds them from; whether one of its fallible calls fails,
  and with which error, is a parameter of the model (the record \<open>sdk\<close>).
\<close>

type_synonym KeyValue = "string \<times> string"

type_synonym Resource = "KeyValue list"

datatype propagator = TraceContext | Baggage | CompositeTextMapPropagator "propagator list"

record traceExporter =
  te_endpoint :: string
  te_headers :: "string \<rightharpoonup> string"

record logExporter =
  le_endpoint :: string
  le_headers :: "string \<rightharpoonup> string"

record TracerProvider =
  tp_batcher :: traceExporter
  tp_batchTimeout :: int
  tp_resource :: Resource

record LoggerProvider =
  lp_resource :: Resource
  lp_processor :: logExporter

datatype provider = TP TracerProvider | LP LoggerProvider

record sdk =
  resource_New_err :: "KeyValue list \<Rightarrow> error option"
  otlptracehttp_New_err :: "string \<Rightarrow> (string \<rightharpoonup> string) \<Rightarrow> error option"
  otlploghttp_New_err :: "string \<Rightarrow> (string \<rightharpoonup> string) \<Rightarrow> error option"
  TracerProvider_Shutdown_err :: "TracerProvider \<Rightarrow> error option"
  LoggerProvider_Shutdown_err :: "LoggerProvider \<Rightarrow> error option"

text \<open>
  The process-global state the code writes: the three registrations
  (\<^verbatim>\<open>otel.SetTextMapPropagator\<close>, \<^verbatim>\<open>otel.SetTracerProvider\<close>,
  \<^verbatim>\<open>global.SetLoggerProvider\<close>) and the providers whose \<^verbatim>\<open>Shutdown\<close> has been
  called, oldest first.
\<close>

record otel =
  textMapPropagator :: "propagator option"
  tracerProvider :: "TracerProvider option"
  loggerProvider :: "LoggerProvider option"
  shutdownCalls :: "provider list"

text \<open>A cleanup function \<^verbatim>\<open>func(context.Context) error\<close>: it acts on the global state.\<close>

type_synonym cleanup = "otel \<Rightarrow> error option \<times> otel"

definition time_Second :: int where
  "time_Second = 1000000000"

definition resource_New :: "sdk \<Rightarrow> KeyValue list \<Rightarrow> error + Resource" where
  "resource_New s attributes =
     (case resource_New_err s attributes of
        Some err \<Rightarrow> Inl err
      | None \<Rightarrow> Inr attributes)"

definition otlptracehttp_New :: "sdk \<Rightarrow> string \<Rightarrow> (string \<rightharpoonup> string) \<Rightarrow> error + traceExporter" where
  "otlptracehttp_New s endpoint hdrs =
     (case otlptracehttp_New_err s endpoint hdrs of
        Some err \<Rightarrow> Inl err
      | None \<Rightarrow> Inr \<lparr>te_endpoint = endpoint, te_headers = hdrs\<rparr>)"

definition otlploghttp_New :: "sdk \<Rightarrow> string \<Rightarrow> (string \<rightharpoonup> string) \<Rightarrow> error + logExporter" where
  "otlploghttp_New s endpoint hdrs =
     (case otlploghttp_New_err s endpoint hdrs of
        Some err \<Rightarrow> Inl err
      | None \<Rightarrow> Inr \<lparr>le_endpoint = endpoint, le_headers = hdrs\<rparr>)"

definition TracerProvider_Shutdown :: "sdk \<Rightarrow> TracerProvider \<Rightarrow> cleanup" where
  "TracerProvider_Shutdown s p w =
     (TracerProvider_Shutdown_err s p, w\<lparr>shutdownCalls := shutdownCalls w @ [TP p]\<rparr>)"

definition LoggerProvider_Shutdown :: "sdk \<Rightarrow> LoggerProvider \<Rightarrow> cleanup" where
  "LoggerProvider_Shutdown s p w =
     (LoggerProvider_Shutdown_err s p, w\<lparr>shutdownCalls := shutdownCalls w @ [LP p]\<rparr>)"

section \<open>Configuration defaults\<close>

text \<open>\<^verbatim>\<open>stringPtr\<close>: a pointer to the given string.\<close>

definition stringPtr :: "string \<Rightarrow> string option" where
  "stringPtr s = Some s"

text \<open>\<^verbatim>\<open>getEnv\<close>: the variable's value when it exists, the given default otherwise.\<close>

definition getEnv :: "string \<Rightarrow> string option \<Rightarrow> environ \<Rightarrow> string option" where
  "getEnv key defaultValue env =
     (case env key of
        Some v \<Rightarrow> Some v
      | None \<Rightarrow> defaultValue)"

text \<open>
  \<^verbatim>\<open>getDefaultConfig\<close>. The composite literal names seven fields; \<^verbatim>\<open>Headers\<close> and
  \<^verbatim>\<open>GitHubURL\<close> keep Go's zero value, nil.
\<close>

definition getDefaultConfig :: "environ \<Rightarrow> InstrumentationConfig" where
  "getDefaultConfig env =
     (let defaultBaseURL = getEnv ''BASE_URL'' None env;
          defaultBaseURL = (if defaultBaseURL = None then stringPtr ''api.iudex.ai''
                            else defaultBaseURL);
          defaultAPIKey = getEnv ''API_KEY'' None env;
          defaultPublicAPIKey = getEnv ''PUBLIC_API_KEY'' None env;
          defaultServiceName = getEnv ''SERVICE_NAME'' None env;
          defaultServiceName = (if defaultServiceName = None then stringPtr ''default-service''
                                else defaultServiceName);
          defaultInstanceID = getEnv ''INSTANCE_ID'' None env;
          defaultEnv = getEnv ''ENVIRONMENT'' None env;
          defaultEnv = (if defaultEnv = None then stringPtr ''development'' else defaultEnv);
          defaultGitCommit = getEnv ''GIT_COMMIT'' None env
      in \<lparr>BaseURL = defaultBaseURL,
          APIKey = defaultAPIKey,
          PublicAPIKey = defaultPublicAPIKey,
          Headers = None,
          ServiceName = defaultServiceName,
          InstanceID = defaultInstanceID,
          Env = defaultEnv,
          GitCommit = defaultGitCommit,
          GitHubURL = None\<rparr>)"

text \<open>
  The block "Set default values if not provided" of \<^verbatim>\<open>setupOTelSDK\<close>: five
  assignments, each guarded by a nil test of the field it fills.
\<close>

definition setDefaults :: "InstrumentationConfig \<Rightarrow> InstrumentationConfig \<Rightarrow> InstrumentationConfig" where
  "setDefaults defaults config =
     (let config = (if ServiceName config = None
                    then config\<lparr>ServiceName := ServiceName defaults\<rparr> else config);
          config = (if InstanceID config = None
                    then config\<lparr>InstanceID := InstanceID defaults\<rparr> else config);
          config = (if Env config = None
                    then config\<lparr>Env := Env defaults\<rparr> else config);
          config = (if GitCommit config = None
                    then config\<lparr>GitCommit := GitCommit defaults\<rparr> else config);
          config = (if BaseURL config = None
                    then config\<lparr>BaseURL := BaseURL defaults\<rparr> else config)
      in config)"

section \<open>Constructors\<close>

definition newPropagator :: propagator where
  "newPropagator = CompositeTextMapPropagator [TraceContext, Baggage]"

text \<open>The attribute list that \<^verbatim>\<open>newResource\<close> appends to, field by field.\<close>

definition resourceAttributes :: "InstrumentationConfig \<Rightarrow> KeyValue list" where
  "resourceAttributes config =
     (let attributes = [];
          attributes = (case ServiceName config of
                          Some v \<Rightarrow> attributes @ [(''service.name'', v)]
                        | None \<Rightarrow> attributes);
          attributes = (case InstanceID config of
                          Some v \<Rightarrow> attributes @ [(''service.instance.id'', v)]
                        | None \<Rightarrow> attributes);
          attributes = (case Env config of
                          Some v \<Rightarrow> attributes @ [(''env'', v)]
                        | None \<Rightarrow> attributes);
          attributes = (case GitCommit config of
                          Some v \<Rightarrow> attributes @ [(''git.commit'', v)]
                        | None \<Rightarrow> attributes);
          attributes = (case GitHubURL config of
                          Some v \<Rightarrow> attributes @ [(''github.url'', v)]
                        | None \<Rightarrow> attributes)
      in attributes)"

definition newResource :: "sdk \<Rightarrow> InstrumentationConfig \<Rightarrow> error + Resource" where
  "newResource s config =
     (case resource_New s (resourceAttributes config) of
        Inl err \<Rightarrow> Inl (wrapError ''failed to create resource: '' err)
      | Inr res \<Rightarrow> Inr res)"

definition newHeaders :: "InstrumentationConfig \<Rightarrow> error + (string \<rightharpoonup> string)" where
  "newHeaders config =
     (if APIKey config = None \<and> PublicAPIKey config = None
      then Inl (errorString
             ''PUBLIC_WRITE_ONLY_IUDEX_API_KEY environment variable is missing or empty'')
      else
        (let headers = Map.empty
         in case PublicAPIKey config of
              Some v \<Rightarrow> Inr (headers(''x-write-only-api-key'' \<mapsto> v))
            | None \<Rightarrow>
                (case APIKey config of
                   Some v \<Rightarrow> Inr (headers(''x-api-key'' \<mapsto> v))
                 | None \<Rightarrow> Inr headers)))"

definition newTraceProvider ::
  "sdk \<Rightarrow> InstrumentationConfig \<Rightarrow> Resource \<Rightarrow> (string \<rightharpoonup> string) \<Rightarrow> error + TracerProvider" where
  "newTraceProvider s config res hdrs =
     (let baseURL = ''api.iudex.ai'';
          baseURL = (case BaseURL config of Some u \<Rightarrow> u | None \<Rightarrow> baseURL)
      in case otlptracehttp_New s baseURL hdrs of
           Inl err \<Rightarrow> Inl err
         | Inr traceExporter \<Rightarrow>
             Inr \<lparr>tp_batcher = traceExporter,
                  tp_batchTimeout = time_Second,
                  tp_resource = res\<rparr>)"

definition newLoggerProvider ::
  "sdk \<Rightarrow> InstrumentationConfig \<Rightarrow> Resource \<Rightarrow> (string \<rightharpoonup> string) \<Rightarrow> error + LoggerProvider" where
  "newLoggerProvider s config res hdrs =
     (let baseURL = ''api.iudex.ai'';
          baseURL = (case BaseURL config of Some u \<Rightarrow> u | None \<Rightarrow> baseURL)
      in case otlploghttp_New s baseURL hdrs of
           Inl err \<Rightarrow> Inl err
         | Inr logExporter \<Rightarrow>
             Inr \<lparr>lp_resource = res, lp_processor = logExporter\<rparr>)"

section \<open>Setup and shutdown\<close>

text \<open>
  The loop of the \<^verbatim>\<open>shutdown\<close> closure: every registered cleanup runs in order, and
  its error is joined onto the errors so far.
\<close>

fun runCleanups :: "cleanup list \<Rightarrow> error option \<Rightarrow> otel \<Rightarrow> error option \<times> otel" where
  "runCleanups [] err w = (err, w)"
| "runCleanups (fn # fns) err w =
     (case fn w of (e, w') \<Rightarrow> runCleanups fns (errors_Join [err, e]) w')"

text \<open>
  The \<^verbatim>\<open>shutdown\<close> closure. It captures the variable \<^verbatim>\<open>shutdownFuncs\<close>, which is
  passed in and returned: the result is the error, the variable after the call (nil),
  and the global state.
\<close>

definition shutdown :: "cleanup list \<Rightarrow> otel \<Rightarrow> error option \<times> cleanup list \<times> otel" where
  "shutdown shutdownFuncs w =
     (case runCleanups shutdownFuncs None w of
        (err, w') \<Rightarrow> (err, [], w'))"

text \<open>
  The \<^verbatim>\<open>handleErr\<close> closure: it sets the named result \<^verbatim>\<open>err\<close> to the join of the
  given error and the result of \<^verbatim>\<open>shutdown\<close>. The triple is what \<^verbatim>\<open>setupOTelSDK\<close>
  then returns: the state of the returned \<^verbatim>\<open>shutdown\<close> closure, \<^verbatim>\<open>err\<close>, and the
  global state.
\<close>

definition handleErr ::
  "cleanup list \<Rightarrow> error \<Rightarrow> otel \<Rightarrow> cleanup list \<times> error option \<times> otel" where
  "handleErr shutdownFuncs inErr w =
     (case shutdown shutdownFuncs w of
        (e, shutdownFuncs', w') \<Rightarrow> (shutdownFuncs', errors_Join [Some inErr, e], w'))"

definition setupOTelSDK ::
  "sdk \<Rightarrow> environ \<Rightarrow> InstrumentationConfig \<Rightarrow> otel \<Rightarrow> cleanup list \<times> error option \<times> otel" where
  "setupOTelSDK s env config w =
     (let shutdownFuncs = [];
          defaults = getDefaultConfig env;
          config = setDefaults defaults config;
          prop = newPropagator;
          w = w\<lparr>textMapPropagator := Some prop\<rparr>
      in case newResource s config of
           Inl err \<Rightarrow> handleErr shutdownFuncs err w
         | Inr res \<Rightarrow>
       (case newHeaders config of
           Inl err \<Rightarrow> handleErr shutdownFuncs err w
         | Inr hdrs \<Rightarrow>
       (case newTraceProvider s config res hdrs of
           Inl err \<Rightarrow> handleErr shutdownFuncs err w
         | Inr tracerProvider' \<Rightarrow>
       (let shutdownFuncs = shutdownFuncs @ [TracerProvider_Shutdown s tracerProvider'];
            w = w\<lparr>tracerProvider := Some tracerProvider'\<rparr>
        in case newLoggerProvider s config res hdrs of
             Inl err \<Rightarrow> handleErr shutdownFuncs err w
           | Inr loggerProvider' \<Rightarrow>
         (let shutdownFuncs = shutdownFuncs @ [LoggerProvider_Shutdown s loggerProvider'];
              w = w\<lparr>loggerProvider := Some loggerProvider'\<rparr>
          in (shutdownFuncs, None, w))))))"

section \<open>Concrete inputs\<close>

text \<open>
  Inputs at which the theorems below are instantiated: the zero value
  \<^verbatim>\<open>InstrumentationConfig{}\<close>, configurations carrying keys, a process that has set
  nothing up yet, an SDK whose calls all succeed, one whose log exporter cannot be
  built and whose tracer provider fails to shut down, one that cannot build a resource,
  an environment that sets \<^verbatim>\<open>GITHUB_URL\<close> and \<^verbatim>\<open>HEADERS\<close>, and a
  configuration and an environment that each set some of the merged fields.
\<close>

definition emptyConfig :: InstrumentationConfig where
  "emptyConfig =
     \<lparr>BaseURL = None, APIKey = None, PublicAPIKey = None, Headers = None,
      ServiceName = None, InstanceID = None, Env = None, GitCommit = None,
      GitHubURL = None\<rparr>"

definition keyedConfig :: InstrumentationConfig where
  "keyedConfig = emptyConfig\<lparr>APIKey := Some ''secret''\<rparr>"

definition publicKeyedConfig :: InstrumentationConfig where
  "publicKeyedConfig =
     emptyConfig\<lparr>APIKey := Some ''secret'', PublicAPIKey := Some ''write-only''\<rparr>"

definition initialOtel :: otel where
  "initialOtel =
     \<lparr>textMapPropagator = None, tracerProvider = None, loggerProvider = None,
      shutdownCalls = []\<rparr>"

definition reliableSdk :: sdk where
  "reliableSdk =
     \<lparr>resource_New_err = (\<lambda>attributes. None),
      otlptracehttp_New_err = (\<lambda>endpoint hdrs. None),
      otlploghttp_New_err = (\<lambda>endpoint hdrs. None),
      TracerProvider_Shutdown_err = (\<lambda>p. None),
      LoggerProvider_Shutdown_err = (\<lambda>p. None)\<rparr>"

definition unreliableSdk :: sdk where
  "unreliableSdk =
     \<lparr>resource_New_err = (\<lambda>attributes. None),
      otlptracehttp_New_err = (\<lambda>endpoint hdrs. None),
      otlploghttp_New_err = (\<lambda>endpoint hdrs. Some (errorString ''invalid endpoint'')),
      TracerProvider_Shutdown_err = (\<lambda>p. Some (errorString ''export timed out'')),
      LoggerProvider_Shutdown_err = (\<lambda>p. None)\<rparr>"

definition resourceFailingSdk :: sdk where
  "resourceFailingSdk =
     reliableSdk\<lparr>resource_New_err := (\<lambda>attributes. Some (errorString ''conflicting Schema URL''))\<rparr>"

definition githubEnv :: environ where
  "githubEnv = [''GITHUB_URL'' \<mapsto> ''https://github.com/acme/shop'', ''HEADERS'' \<mapsto> ''x-team=shop'']"

definition mixedConfig :: InstrumentationConfig where
  "mixedConfig = emptyConfig\<lparr>APIKey := Some ''secret'', ServiceName := Some ''checkout''\<rparr>"

definition mixedEnv :: environ where
  "mixedEnv = [''SERVICE_NAME'' \<mapsto> ''billing'', ''INSTANCE_ID'' \<mapsto> ''i-1'',
               ''BASE_URL'' \<mapsto> ''collector.local'']"

section \<open>Basic facts\<close>

lemma errors_Join_pair_nil: "errors_Join [Some e, None] = Some (joinError [e])"
  by (simp add: errors_Join_def)

lemma shutdown_Nil: "shutdown [] w = (None, [], w)"
  by (simp add: shutdown_def)

lemma handleErr_Nil: "handleErr [] e w = ([], Some (joinError [e]), w)"
  by (simp add: handleErr_def shutdown_Nil errors_Join_pair_nil)

lemma triple_collapse: "x = (fst x, fst (snd x), snd (snd x))"
  by simp

text \<open>The defaulting block leaves the two keys, the GitHub URL and the header map alone.\<close>

lemma setDefaults_keys:
  "APIKey (setDefaults d c) = APIKey c"
  "PublicAPIKey (setDefaults d c) = PublicAPIKey c"
  "GitHubURL (setDefaults d c) = GitHubURL c"
  "Headers (setDefaults d c) = Headers c"
  by (simp_all add: setDefaults_def Let_def)

lemma setDefaults_fields:
  "ServiceName (setDefaults d c) =
     (case ServiceName c of Some v \<Rightarrow> Some v | None \<Rightarrow> ServiceName d)"
  "InstanceID (setDefaults d c) =
     (case InstanceID c of Some v \<Rightarrow> Some v | None \<Rightarrow> InstanceID d)"
  "Env (setDefaults d c) =
     (case Env c of Some v \<Rightarrow> Some v | None \<Rightarrow> Env d)"
  "GitCommit (setDefaults d c) =
     (case GitCommit c of Some v \<Rightarrow> Some v | None \<Rightarrow> GitCommit d)"
  "BaseURL (setDefaults d c) =
     (case BaseURL c of Some v \<Rightarrow> Some v | None \<Rightarrow> BaseURL d)"
  by (simp_all add: setDefaults_def Let_def split: option.splits)

lemma getDefaultConfig_fields:
  "ServiceName (getDefaultConfig env) =
     (case env ''SERVICE_NAME'' of Some v \<Rightarrow> Some v | None \<Rightarrow> Some ''default-service'')"
  "InstanceID (getDefaultConfig env) = env ''INSTANCE_ID''"
  "Env (getDefaultConfig env) =
     (case env ''ENVIRONMENT'' of Some v \<Rightarrow> Some v | None \<Rightarrow> Some ''development'')"
  "GitCommit (getDefaultConfig env) = env ''GIT_COMMIT''"
  "BaseURL (getDefaultConfig env) =
     (case env ''BASE_URL'' of Some v \<Rightarrow> Some v | None \<Rightarrow> Some ''api.iudex.ai'')"
  "APIKey (getDefaultConfig env) = env ''API_KEY''"
  "PublicAPIKey (getDefaultConfig env) = env ''PUBLIC_API_KEY''"
  "Headers (getDefaultConfig env) = None"
  "GitHubURL (getDefaultConfig env) = None"
  by (simp_all add: getDefaultConfig_def getEnv_def stringPtr_def Let_def split: option.splits)

lemma setDefaults_idem: "setDefaults d (setDefaults d c) = setDefaults d c"
  by (rule InstrumentationConfig.equality)
    (simp_all add: setDefaults_fields setDefaults_keys split: option.splits)

lemma setupOTelSDK_merged:
  "setupOTelSDK s env (setDefaults (getDefaultConfig env) config) w = setupOTelSDK s env config w"
  by (simp only: setupOTelSDK_def Let_def setDefaults_idem)

lemma newHeaders_no_keys:
  "APIKey c = None \<Longrightarrow> PublicAPIKey c = None \<Longrightarrow>
   newHeaders c = Inl (errorString
     ''PUBLIC_WRITE_ONLY_IUDEX_API_KEY environment variable is missing or empty'')"
  by (simp add: newHeaders_def)

text \<open>
  With both key fields of the caller's configuration nil, setup stops at the resource or
  at the headers: nothing has been appended to \<^verbatim>\<open>shutdownFuncs\<close>, and only the
  propagator has been registered.
\<close>

lemma setup_without_config_keys:
  assumes "APIKey config = None" and "PublicAPIKey config = None"
  shows "\<exists>e. setupOTelSDK s env config w =
           ([], Some (joinError [e]), w\<lparr>textMapPropagator := Some newPropagator\<rparr>)"
  using assms
  by (simp add: setupOTelSDK_def Let_def handleErr_Nil newHeaders_no_keys setDefaults_keys
      split: sum.splits)

section \<open>Missing API keys\<close>

text \<open>
  C1. When both API-key fields of the configuration are nil and neither \<^verbatim>\<open>API_KEY\<close>
  nor \<^verbatim>\<open>PUBLIC_API_KEY\<close> is set in the environment, \<^verbatim>\<open>setupOTelSDK\<close> returns a
  non-nil error, and the registered tracer provider and logger provider are the ones
  from before the call: setup has registered neither.
\<close>

theorem missing_keys_setup_fails:
  assumes "APIKey config = None" and "PublicAPIKey config = None"
    and "getEnv ''API_KEY'' None env = None"
    and "getEnv ''PUBLIC_API_KEY'' None env = None"
  shows "case setupOTelSDK s env config w of
           (shutdownFuncs, err, w') \<Rightarrow>
             err \<noteq> None \<and> tracerProvider w' = tracerProvider w
             \<and> loggerProvider w' = loggerProvider w"
proof -
  from setup_without_config_keys [OF assms(1,2)]
  obtain e where "setupOTelSDK s env config w =
      ([], Some (joinError [e]), w\<lparr>textMapPropagator := Some newPropagator\<rparr>)"
    by blast
  then show ?thesis by simp
qed

theorem missing_keys_setup_fails_witness:
  "APIKey emptyConfig = None \<and> PublicAPIKey emptyConfig = None
   \<and> getEnv ''API_KEY'' None [''SERVICE_NAME'' \<mapsto> ''checkout''] = None
   \<and> getEnv ''PUBLIC_API_KEY'' None [''SERVICE_NAME'' \<mapsto> ''checkout''] = None
   \<and> (case setupOTelSDK reliableSdk [''SERVICE_NAME'' \<mapsto> ''checkout''] emptyConfig initialOtel of
         (shutdownFuncs, err, w') \<Rightarrow>
           err \<noteq> None \<and> tracerProvider w' = tracerProvider initialOtel
           \<and> loggerProvider w' = loggerProvider initialOtel)"
  using missing_keys_setup_fails [where config = emptyConfig
      and env = "[''SERVICE_NAME'' \<mapsto> ''checkout'']" and s = reliableSdk and w = initialOtel]
  by (simp add: emptyConfig_def getEnv_def)

section \<open>Authentication headers\<close>

text \<open>
  C4. When \<^verbatim>\<open>PublicAPIKey\<close> is non-nil, \<^verbatim>\<open>newHeaders\<close> returns the map that sends
  \<^verbatim>\<open>x-write-only-api-key\<close> to its value; when \<^verbatim>\<open>PublicAPIKey\<close> is nil and
  \<^verbatim>\<open>APIKey\<close> is non-nil, it returns the map that sends \<^verbatim>\<open>x-api-key\<close> to the value
  of \<^verbatim>\<open>APIKey\<close>.
\<close>

theorem header_name_selection:
  "(PublicAPIKey config = Some v \<longrightarrow>
      newHeaders config = Inr [''x-write-only-api-key'' \<mapsto> v])
   \<and> (PublicAPIKey config = None \<and> APIKey config = Some v \<longrightarrow>
      newHeaders config = Inr [''x-api-key'' \<mapsto> v])"
  by (simp add: newHeaders_def)

theorem header_name_selection_witness:
  "PublicAPIKey publicKeyedConfig = Some ''write-only''
   \<and> newHeaders publicKeyedConfig = Inr [''x-write-only-api-key'' \<mapsto> ''write-only'']
   \<and> PublicAPIKey keyedConfig = None \<and> APIKey keyedConfig = Some ''secret''
   \<and> newHeaders keyedConfig = Inr [''x-api-key'' \<mapsto> ''secret'']"
  using header_name_selection [where config = publicKeyedConfig and v = "''write-only''"]
    header_name_selection [where config = keyedConfig and v = "''secret''"]
  by (simp add: publicKeyedConfig_def keyedConfig_def emptyConfig_def)

text \<open>
  C5, as stated: the header map built by \<^verbatim>\<open>newHeaders\<close> has exactly two entries.
  It fails for a configuration holding only \<^verbatim>\<open>APIKey\<close>: the map has the single
  entry \<^verbatim>\<open>x-api-key\<close>.
\<close>

theorem headers_two_entries_counterexample:
  "newHeaders keyedConfig = Inr [''x-api-key'' \<mapsto> ''secret'']
   \<and> card (dom [''x-api-key'' \<mapsto> ''secret'']) \<noteq> 2"
  by (simp add: newHeaders_def keyedConfig_def emptyConfig_def)

text \<open>
  C5, amended: for every configuration with at least one API-key field present, the
  header map built by \<^verbatim>\<open>newHeaders\<close> contains exactly one entry.
\<close>

theorem headers_one_entry:
  assumes "APIKey config \<noteq> None \<or> PublicAPIKey config \<noteq> None"
  shows "\<exists>h. newHeaders config = Inr h \<and> card (dom h) = 1"
  using assms by (auto simp add: newHeaders_def Let_def split: option.splits)

theorem headers_one_entry_witness:
  "APIKey publicKeyedConfig = Some ''secret''
   \<and> PublicAPIKey publicKeyedConfig = Some ''write-only''
   \<and> (\<exists>h. newHeaders publicKeyedConfig = Inr h \<and> card (dom h) = 1)"
  using headers_one_entry [where config = publicKeyedConfig]
  by (simp add: publicKeyedConfig_def emptyConfig_def)

section \<open>Failure of a constructor\<close>

lemma errors_Join_nil_left:
  "errors_Join [None, x] = (case x of None \<Rightarrow> None | Some e \<Rightarrow> Some (joinError [e]))"
  by (simp add: errors_Join_def split: option.splits)

text \<open>One registered tracer provider: \<^verbatim>\<open>shutdown\<close> calls its \<^verbatim>\<open>Shutdown\<close> once.\<close>

lemma shutdown_single:
  "shutdown [TracerProvider_Shutdown s p] w =
     (errors_Join [None, TracerProvider_Shutdown_err s p], [],
      w\<lparr>shutdownCalls := shutdownCalls w @ [TP p]\<rparr>)"
  by (simp add: shutdown_def TracerProvider_Shutdown_def)

text \<open>
  The four places where \<^verbatim>\<open>setupOTelSDK\<close> calls \<^verbatim>\<open>handleErr\<close>, and the path on
  which every constructor succeeds.
\<close>

lemma setup_resource_fails:
  assumes "newResource s (setDefaults (getDefaultConfig env) config) = Inl e"
  shows "setupOTelSDK s env config w =
           ([], errors_Join [Some e, None], w\<lparr>textMapPropagator := Some newPropagator\<rparr>)"
  using assms by (simp add: setupOTelSDK_def Let_def handleErr_def shutdown_Nil)

lemma setup_headers_fail:
  assumes "newResource s (setDefaults (getDefaultConfig env) config) = Inr res"
    and "newHeaders (setDefaults (getDefaultConfig env) config) = Inl e"
  shows "setupOTelSDK s env config w =
           ([], errors_Join [Some e, None], w\<lparr>textMapPropagator := Some newPropagator\<rparr>)"
  using assms by (simp add: setupOTelSDK_def Let_def handleErr_def shutdown_Nil)

lemma setup_trace_provider_fails:
  assumes "newResource s (setDefaults (getDefaultConfig env) config) = Inr res"
    and "newHeaders (setDefaults (getDefaultConfig env) config) = Inr hdrs"
    and "newTraceProvider s (setDefaults (getDefaultConfig env) config) res hdrs = Inl e"
  shows "setupOTelSDK s env config w =
           ([], errors_Join [Some e, None], w\<lparr>textMapPropagator := Some newPropagator\<rparr>)"
  using assms by (simp add: setupOTelSDK_def Let_def handleErr_def shutdown_Nil)

lemma setup_logger_provider_fails:
  assumes "newResource s (setDefaults (getDefaultConfig env) config) = Inr res"
    and "newHeaders (setDefaults (getDefaultConfig env) config) = Inr hdrs"
    and "newTraceProvider s (setDefaults (getDefaultConfig env) config) res hdrs = Inr tp"
    and "newLoggerProvider s (setDefaults (getDefaultConfig env) config) res hdrs = Inl e"
  shows "setupOTelSDK s env config w =
           ([], errors_Join [Some e, errors_Join [None, TracerProvider_Shutdown_err s tp]],
            w\<lparr>textMapPropagator := Some newPropagator, tracerProvider := Some tp,
              shutdownCalls := shutdownCalls w @ [TP tp]\<rparr>)"
  using assms by (simp add: setupOTelSDK_def Let_def handleErr_def shutdown_single)

lemma setup_succeeds:
  assumes "newResource s (setDefaults (getDefaultConfig env) config) = Inr res"
    and "newHeaders (setDefaults (getDefaultConfig env) config) = Inr hdrs"
    and "newTraceProvider s (setDefaults (getDefaultConfig env) config) res hdrs = Inr tp"
    and "newLoggerProvider s (setDefaults (getDefaultConfig env) config) res hdrs = Inr lp"
  shows "setupOTelSDK s env config w =
           ([TracerProvider_Shutdown s tp, LoggerProvider_Shutdown s lp], None,
            w\<lparr>textMapPropagator := Some newPropagator, tracerProvider := Some tp,
              loggerProvider := Some lp\<rparr>)"
  using assms by (simp add: setupOTelSDK_def Let_def)

text \<open>
  C3. When a constructor of \<^verbatim>\<open>setupOTelSDK\<close> fails with an error \<open>e\<close>, the
  returned error is the join of \<open>e\<close> with the result of \<^verbatim>\<open>shutdown\<close>, and every
  provider started before the failure has had its \<^verbatim>\<open>Shutdown\<close> called by the time
  setup returns. When the resource, the headers or the trace provider fails, no
  provider has been started: no \<^verbatim>\<open>Shutdown\<close> is called and the error is the join
  of \<open>e\<close> alone. When the logger provider fails, the tracer provider built before it
  is shut down, and the error joins \<open>e\<close> with the error of that shutdown.
\<close>

theorem constructor_failure_shuts_down:
  assumes "cfg = setDefaults (getDefaultConfig env) config"
    and "setupOTelSDK s env config w = (shutdownFuncs, err, w')"
  shows "(newResource s cfg = Inl e \<longrightarrow>
            err = errors_Join [Some e, None] \<and> shutdownCalls w' = shutdownCalls w)
       \<and> (newResource s cfg = Inr res \<and> newHeaders cfg = Inl e \<longrightarrow>
            err = errors_Join [Some e, None] \<and> shutdownCalls w' = shutdownCalls w)
       \<and> (newResource s cfg = Inr res \<and> newHeaders cfg = Inr hdrs
            \<and> newTraceProvider s cfg res hdrs = Inl e \<longrightarrow>
            err = errors_Join [Some e, None] \<and> shutdownCalls w' = shutdownCalls w)
       \<and> (newResource s cfg = Inr res \<and> newHeaders cfg = Inr hdrs
            \<and> newTraceProvider s cfg res hdrs = Inr tp
            \<and> newLoggerProvider s cfg res hdrs = Inl e \<longrightarrow>
            err = errors_Join [Some e, errors_Join [None, TracerProvider_Shutdown_err s tp]]
            \<and> shutdownCalls w' = shutdownCalls w @ [TP tp])"
proof (intro conjI impI)
  assume "newResource s cfg = Inl e"
  with assms setup_resource_fails [of s env config e w]
  show "err = errors_Join [Some e, None]" and "shutdownCalls w' = shutdownCalls w"
    by auto
next
  assume "newResource s cfg = Inr res \<and> newHeaders cfg = Inl e"
  with assms setup_headers_fail [of s env config res e w]
  show "err = errors_Join [Some e, None]" and "shutdownCalls w' = shutdownCalls w"
    by auto
next
  assume "newResource s cfg = Inr res \<and> newHeaders cfg = Inr hdrs
            \<and> newTraceProvider s cfg res hdrs = Inl e"
  with assms setup_trace_provider_fails [of s env config res hdrs e w]
  show "err = errors_Join [Some e, None]" and "shutdownCalls w' = shutdownCalls w"
    by auto
next
  assume "newResource s cfg = Inr res \<and> newHeaders cfg = Inr hdrs
            \<and> newTraceProvider s cfg res hdrs = Inr tp
            \<and> newLoggerProvider s cfg res hdrs = Inl e"
  with assms setup_logger_provider_fails [of s env config res hdrs tp e w]
  show "err = errors_Join [Some e, errors_Join [None, TracerProvider_Shutdown_err s tp]]"
    and "shutdownCalls w' = shutdownCalls w @ [TP tp]"
    by auto
qed

theorem constructor_failure_shuts_down_witness:
  "newResource resourceFailingSdk (setDefaults (getDefaultConfig Map.empty) keyedConfig)
     = Inl (wrapError ''failed to create resource: '' (errorString ''conflicting Schema URL''))
   \<and> fst (snd (setupOTelSDK resourceFailingSdk Map.empty keyedConfig initialOtel))
     = Some (joinError
         [wrapError ''failed to create resource: '' (errorString ''conflicting Schema URL'')])
   \<and> shutdownCalls (snd (snd (setupOTelSDK resourceFailingSdk Map.empty keyedConfig initialOtel)))
     = []
   \<and> newResource unreliableSdk (setDefaults (getDefaultConfig Map.empty) keyedConfig)
     = Inr [(''service.name'', ''default-service''), (''env'', ''development'')]
   \<and> newHeaders (setDefaults (getDefaultConfig Map.empty) keyedConfig)
     = Inr [''x-api-key'' \<mapsto> ''secret'']
   \<and> newTraceProvider unreliableSdk (setDefaults (getDefaultConfig Map.empty) keyedConfig)
       [(''service.name'', ''default-service''), (''env'', ''development'')]
       [''x-api-key'' \<mapsto> ''secret'']
     = Inr \<lparr>tp_batcher = \<lparr>te_endpoint = ''api.iudex.ai'',
                            te_headers = [''x-api-key'' \<mapsto> ''secret'']\<rparr>,
            tp_batchTimeout = time_Second,
            tp_resource = [(''service.name'', ''default-service''), (''env'', ''development'')]\<rparr>
   \<and> newLoggerProvider unreliableSdk (setDefaults (getDefaultConfig Map.empty) keyedConfig)
       [(''service.name'', ''default-service''), (''env'', ''development'')]
       [''x-api-key'' \<mapsto> ''secret'']
     = Inl (errorString ''invalid endpoint'')
   \<and> fst (snd (setupOTelSDK unreliableSdk Map.empty keyedConfig initialOtel))
     = Some (joinError [errorString ''invalid endpoint'',
                        joinError [errorString ''export timed out'']])
   \<and> shutdownCalls (snd (snd (setupOTelSDK unreliableSdk Map.empty keyedConfig initialOtel)))
     = [TP \<lparr>tp_batcher = \<lparr>te_endpoint = ''api.iudex.ai'',
                            te_headers = [''x-api-key'' \<mapsto> ''secret'']\<rparr>,
             tp_batchTimeout = time_Second,
             tp_resource = [(''service.name'', ''default-service''), (''env'', ''development'')]\<rparr>]"
proof -
  let ?cfg = "setDefaults (getDefaultConfig Map.empty) keyedConfig"
  let ?res = "[(''service.name'', ''default-service''), (''env'', ''development'')]"
  let ?hdrs = "[''x-api-key'' \<mapsto> ''secret'']"
  let ?tp = "\<lparr>tp_batcher = \<lparr>te_endpoint = ''api.iudex.ai'', te_headers = ?hdrs\<rparr>,
              tp_batchTimeout = time_Second, tp_resource = ?res\<rparr>"
  let ?e1 = "wrapError ''failed to create resource: '' (errorString ''conflicting Schema URL'')"
  let ?r1 = "setupOTelSDK resourceFailingSdk Map.empty keyedConfig initialOtel"
  let ?r4 = "setupOTelSDK unreliableSdk Map.empty keyedConfig initialOtel"
  have cfg: "?cfg = \<lparr>BaseURL = Some ''api.iudex.ai'', APIKey = Some ''secret'',
      PublicAPIKey = None, Headers = None, ServiceName = Some ''default-service'',
      InstanceID = None, Env = Some ''development'', GitCommit = None, GitHubURL = None\<rparr>"
    by (simp add: setDefaults_def getDefaultConfig_def getEnv_def stringPtr_def Let_def
        keyedConfig_def emptyConfig_def)
  have a1: "newResource resourceFailingSdk ?cfg = Inl ?e1"
    by (simp add: cfg newResource_def resource_New_def resourceFailingSdk_def reliableSdk_def)
  have b1: "newResource unreliableSdk ?cfg = Inr ?res"
    by (simp add: cfg newResource_def resource_New_def resourceAttributes_def unreliableSdk_def)
  have b2: "newHeaders ?cfg = Inr ?hdrs"
    by (simp add: cfg newHeaders_def)
  have b3: "newTraceProvider unreliableSdk ?cfg ?res ?hdrs = Inr ?tp"
    by (simp add: cfg newTraceProvider_def otlptracehttp_New_def unreliableSdk_def)
  have b4: "newLoggerProvider unreliableSdk ?cfg ?res ?hdrs = Inl (errorString ''invalid endpoint'')"
    by (simp add: cfg newLoggerProvider_def otlploghttp_New_def unreliableSdk_def)
  from constructor_failure_shuts_down [OF refl triple_collapse [of ?r1],
      where e = ?e1] a1
  have c1: "fst (snd ?r1) = errors_Join [Some ?e1, None]"
    and c2: "shutdownCalls (snd (snd ?r1)) = shutdownCalls initialOtel"
    by blast+
  from constructor_failure_shuts_down [OF refl triple_collapse [of ?r4],
      where e = "errorString ''invalid endpoint''" and res = ?res and hdrs = ?hdrs and tp = ?tp]
    b1 b2 b3 b4
  have d1: "fst (snd ?r4) = errors_Join [Some (errorString ''invalid endpoint''),
        errors_Join [None, TracerProvider_Shutdown_err unreliableSdk ?tp]]"
    and d2: "shutdownCalls (snd (snd ?r4)) = shutdownCalls initialOtel @ [TP ?tp]"
    by blast+
  from c1 have c1': "fst (snd ?r1) = Some (joinError [?e1])"
    by (simp add: errors_Join_def)
  from c2 have c2': "shutdownCalls (snd (snd ?r1)) = []"
    by (simp add: initialOtel_def)
  from d1 have d1': "fst (snd ?r4) = Some (joinError [errorString ''invalid endpoint'',
                        joinError [errorString ''export timed out'']])"
    by (simp add: errors_Join_def unreliableSdk_def)
  from d2 have d2': "shutdownCalls (snd (snd ?r4)) = [TP ?tp]"
    by (simp add: initialOtel_def)
  from a1 c1' c2' b1 b2 b3 b4 d1' d2' show ?thesis by blast
qed

section \<open>Merging the configuration with the defaults\<close>

lemma errors_Join_Some_left:
  "errors_Join (Some e # xs) \<noteq> None"
  "None \<noteq> errors_Join (Some e # xs)"
  by (simp_all add: errors_Join_def split: list.splits)

text \<open>A setup that returns a nil error has passed all four constructors.\<close>

lemma setup_success_inv:
  assumes ok: "setupOTelSDK s env config w = (shutdownFuncs, None, w')"
  shows "\<exists>res hdrs tp lp.
           newResource s (setDefaults (getDefaultConfig env) config) = Inr res
         \<and> newHeaders (setDefaults (getDefaultConfig env) config) = Inr hdrs
         \<and> newTraceProvider s (setDefaults (getDefaultConfig env) config) res hdrs = Inr tp
         \<and> newLoggerProvider s (setDefaults (getDefaultConfig env) config) res hdrs = Inr lp
         \<and> tracerProvider w' = Some tp \<and> loggerProvider w' = Some lp"
proof -
  let ?cfg = "setDefaults (getDefaultConfig env) config"
  obtain res where res: "newResource s ?cfg = Inr res"
  proof (cases "newResource s ?cfg")
    case (Inl e)
    from setup_resource_fails [OF Inl, of w] ok show ?thesis
      by (simp add: errors_Join_Some_left)
  next
    case (Inr r)
    then show ?thesis by (rule that)
  qed
  obtain hdrs where hdrs: "newHeaders ?cfg = Inr hdrs"
  proof (cases "newHeaders ?cfg")
    case (Inl e)
    from setup_headers_fail [OF res Inl, of w] ok show ?thesis
      by (simp add: errors_Join_Some_left)
  next
    case (Inr h)
    then show ?thesis by (rule that)
  qed
  obtain tp where tp: "newTraceProvider s ?cfg res hdrs = Inr tp"
  proof (cases "newTraceProvider s ?cfg res hdrs")
    case (Inl e)
    from setup_trace_provider_fails [OF res hdrs Inl, of w] ok show ?thesis
      by (simp add: errors_Join_Some_left)
  next
    case (Inr p)
    then show ?thesis by (rule that)
  qed
  obtain lp where lp: "newLoggerProvider s ?cfg res hdrs = Inr lp"
  proof (cases "newLoggerProvider s ?cfg res hdrs")
    case (Inl e)
    from setup_logger_provider_fails [OF res hdrs tp Inl, of w] ok show ?thesis
      by (simp add: errors_Join_Some_left)
  next
    case (Inr p)
    then show ?thesis by (rule that)
  qed
  from setup_succeeds [OF res hdrs tp lp, of w] ok
  have "tracerProvider w' = Some tp" and "loggerProvider w' = Some lp"
    by auto
  with res hdrs tp lp show ?thesis by blast
qed

lemma newResource_Inr: "newResource s c = Inr res \<Longrightarrow> res = resourceAttributes c"
  by (auto simp add: newResource_def resource_New_def split: option.splits sum.splits)

lemma newTraceProvider_Inr:
  "newTraceProvider s c res hdrs = Inr tp \<Longrightarrow>
   tp_resource tp = res
   \<and> te_endpoint (tp_batcher tp) = (case BaseURL c of Some u \<Rightarrow> u | None \<Rightarrow> ''api.iudex.ai'')"
  by (auto simp add: newTraceProvider_def otlptracehttp_New_def Let_def
      split: option.splits sum.splits)

lemma newLoggerProvider_Inr:
  "newLoggerProvider s c res hdrs = Inr lp \<Longrightarrow>
   lp_resource lp = res
   \<and> le_endpoint (lp_processor lp) = (case BaseURL c of Some u \<Rightarrow> u | None \<Rightarrow> ''api.iudex.ai'')"
  by (auto simp add: newLoggerProvider_def otlploghttp_New_def Let_def
      split: option.splits sum.splits)

text \<open>The attributes and the endpoint of the merged configuration, field by field.\<close>

lemma resourceAttributes_merged:
  "resourceAttributes (setDefaults (getDefaultConfig env) config) =
     [(''service.name'',
        case ServiceName config of
          Some v \<Rightarrow> v
        | None \<Rightarrow> (case env ''SERVICE_NAME'' of Some v \<Rightarrow> v | None \<Rightarrow> ''default-service''))]
     @ (case InstanceID config of
          Some v \<Rightarrow> [(''service.instance.id'', v)]
        | None \<Rightarrow> (case env ''INSTANCE_ID'' of
                     Some v \<Rightarrow> [(''service.instance.id'', v)]
                   | None \<Rightarrow> []))
     @ [(''env'',
        case Env config of
          Some v \<Rightarrow> v
        | None \<Rightarrow> (case env ''ENVIRONMENT'' of Some v \<Rightarrow> v | None \<Rightarrow> ''development''))]
     @ (case GitCommit config of
          Some v \<Rightarrow> [(''git.commit'', v)]
        | None \<Rightarrow> (case env ''GIT_COMMIT'' of
                     Some v \<Rightarrow> [(''git.commit'', v)]
                   | None \<Rightarrow> []))
     @ (case GitHubURL config of
          Some v \<Rightarrow> [(''github.url'', v)]
        | None \<Rightarrow> [])"
  by (simp add: resourceAttributes_def Let_def setDefaults_fields setDefaults_keys
      getDefaultConfig_fields split: option.splits)

lemma endpoint_merged:
  "(case BaseURL (setDefaults (getDefaultConfig env) config) of
      Some u \<Rightarrow> u | None \<Rightarrow> ''api.iudex.ai'') =
   (case BaseURL config of
      Some v \<Rightarrow> v
    | None \<Rightarrow> (case env ''BASE_URL'' of Some v \<Rightarrow> v | None \<Rightarrow> ''api.iudex.ai''))"
  by (simp add: setDefaults_fields getDefaultConfig_fields split: option.splits)

lemma setup_uses_merged:
  assumes ok: "setupOTelSDK s env config w = (shutdownFuncs, None, w')"
  shows "\<exists>tp lp. tracerProvider w' = Some tp \<and> loggerProvider w' = Some lp
          \<and> tp_resource tp = resourceAttributes (setDefaults (getDefaultConfig env) config)
          \<and> lp_resource lp = resourceAttributes (setDefaults (getDefaultConfig env) config)
          \<and> te_endpoint (tp_batcher tp) =
              (case BaseURL (setDefaults (getDefaultConfig env) config) of
                 Some u \<Rightarrow> u | None \<Rightarrow> ''api.iudex.ai'')
          \<and> le_endpoint (lp_processor lp) =
              (case BaseURL (setDefaults (getDefaultConfig env) config) of
                 Some u \<Rightarrow> u | None \<Rightarrow> ''api.iudex.ai'')"
proof -
  from setup_success_inv [OF ok] obtain res hdrs tp lp where
    r: "newResource s (setDefaults (getDefaultConfig env) config) = Inr res"
    and t: "newTraceProvider s (setDefaults (getDefaultConfig env) config) res hdrs = Inr tp"
    and l: "newLoggerProvider s (setDefaults (getDefaultConfig env) config) res hdrs = Inr lp"
    and reg: "tracerProvider w' = Some tp" "loggerProvider w' = Some lp"
    by blast
  from newResource_Inr [OF r] newTraceProvider_Inr [OF t] newLoggerProvider_Inr [OF l] reg
  show ?thesis by simp
qed

text \<open>
  C2. For every configuration and environment, \<^verbatim>\<open>setupOTelSDK\<close> merges the
  configuration with the defaults field by field, the first non-nil value winning: each
  of \<^verbatim>\<open>ServiceName\<close>, \<^verbatim>\<open>InstanceID\<close>, \<^verbatim>\<open>Env\<close>, \<^verbatim>\<open>GitCommit\<close> and
  \<^verbatim>\<open>BaseURL\<close> is the caller's field when it is non-nil, otherwise the environment
  variable when it is set, otherwise the hard-coded default: a string for the service
  name, the environment and the endpoint, nil for the instance id and the git commit.
  The defaults of \<^verbatim>\<open>APIKey\<close> and \<^verbatim>\<open>PublicAPIKey\<close> are the environment variable
  when set and nil otherwise. These are the values setup uses: it behaves on a
  configuration as on the merged one, and whenever it succeeds, the tracer provider and
  the logger provider it has registered carry the resource attributes built from
  exactly these values and export to exactly this endpoint.
\<close>

theorem defaults_first_non_nil_wins:
  "ServiceName (setDefaults (getDefaultConfig env) config) =
     (case ServiceName config of
        Some v \<Rightarrow> Some v
      | None \<Rightarrow> (case env ''SERVICE_NAME'' of
                   Some v \<Rightarrow> Some v
                 | None \<Rightarrow> Some ''default-service''))
   \<and> InstanceID (setDefaults (getDefaultConfig env) config) =
     (case InstanceID config of
        Some v \<Rightarrow> Some v
      | None \<Rightarrow> (case env ''INSTANCE_ID'' of
                   Some v \<Rightarrow> Some v
                 | None \<Rightarrow> None))
   \<and> Env (setDefaults (getDefaultConfig env) config) =
     (case Env config of
        Some v \<Rightarrow> Some v
      | None \<Rightarrow> (case env ''ENVIRONMENT'' of
                   Some v \<Rightarrow> Some v
                 | None \<Rightarrow> Some ''development''))
   \<and> GitCommit (setDefaults (getDefaultConfig env) config) =
     (case GitCommit config of
        Some v \<Rightarrow> Some v
      | None \<Rightarrow> (case env ''GIT_COMMIT'' of
                   Some v \<Rightarrow> Some v
                 | None \<Rightarrow> None))
   \<and> BaseURL (setDefaults (getDefaultConfig env) config) =
     (case BaseURL config of
        Some v \<Rightarrow> Some v
      | None \<Rightarrow> (case env ''BASE_URL'' of
                   Some v \<Rightarrow> Some v
                 | None \<Rightarrow> Some ''api.iudex.ai''))
   \<and> APIKey (getDefaultConfig env) =
     (case env ''API_KEY'' of Some v \<Rightarrow> Some v | None \<Rightarrow> None)
   \<and> PublicAPIKey (getDefaultConfig env) =
     (case env ''PUBLIC_API_KEY'' of Some v \<Rightarrow> Some v | None \<Rightarrow> None)
   \<and> setupOTelSDK s env config w
       = setupOTelSDK s env (setDefaults (getDefaultConfig env) config) w
   \<and> (setupOTelSDK s env config w = (shutdownFuncs, None, w') \<longrightarrow>
       (\<exists>tp lp.
          tracerProvider w' = Some tp \<and> loggerProvider w' = Some lp
          \<and> tp_resource tp = lp_resource lp
          \<and> te_endpoint (tp_batcher tp) = le_endpoint (lp_processor lp)
          \<and> tp_resource tp =
              [(''service.name'',
                 case ServiceName config of
                   Some v \<Rightarrow> v
                 | None \<Rightarrow> (case env ''SERVICE_NAME'' of
                              Some v \<Rightarrow> v
                            | None \<Rightarrow> ''default-service''))]
              @ (case InstanceID config of
                   Some v \<Rightarrow> [(''service.instance.id'', v)]
                 | None \<Rightarrow> (case env ''INSTANCE_ID'' of
                              Some v \<Rightarrow> [(''service.instance.id'', v)]
                            | None \<Rightarrow> []))
              @ [(''env'',
                 case Env config of
                   Some v \<Rightarrow> v
                 | None \<Rightarrow> (case env ''ENVIRONMENT'' of
                              Some v \<Rightarrow> v
                            | None \<Rightarrow> ''development''))]
              @ (case GitCommit config of
                   Some v \<Rightarrow> [(''git.commit'', v)]
                 | None \<Rightarrow> (case env ''GIT_COMMIT'' of
                              Some v \<Rightarrow> [(''git.commit'', v)]
                            | None \<Rightarrow> []))
              @ (case GitHubURL config of
                   Some v \<Rightarrow> [(''github.url'', v)]
                 | None \<Rightarrow> [])
          \<and> te_endpoint (tp_batcher tp) =
              (case BaseURL config of
                 Some v \<Rightarrow> v
               | None \<Rightarrow> (case env ''BASE_URL'' of
                            Some v \<Rightarrow> v
                          | None \<Rightarrow> ''api.iudex.ai''))))"
proof -
  let ?m = "setDefaults (getDefaultConfig env) config"
  have 1: "ServiceName ?m =
     (case ServiceName config of
        Some v \<Rightarrow> Some v
      | None \<Rightarrow> (case env ''SERVICE_NAME'' of
                   Some v \<Rightarrow> Some v
                 | None \<Rightarrow> Some ''default-service''))"
    by (simp add: setDefaults_fields getDefaultConfig_fields split: option.splits)
  have 2: "InstanceID ?m =
     (case InstanceID config of
        Some v \<Rightarrow> Some v
      | None \<Rightarrow> (case env ''INSTANCE_ID'' of
                   Some v \<Rightarrow> Some v
                 | None \<Rightarrow> None))"
    by (simp add: setDefaults_fields getDefaultConfig_fields split: option.splits)
  have 3: "Env ?m =
     (case Env config of
        Some v \<Rightarrow> Some v
      | None \<Rightarrow> (case env ''ENVIRONMENT'' of
                   Some v \<Rightarrow> Some v
                 | None \<Rightarrow> Some ''development''))"
    by (simp add: setDefaults_fields getDefaultConfig_fields split: option.splits)
  have 4: "GitCommit ?m =
     (case GitCommit config of
        Some v \<Rightarrow> Some v
      | None \<Rightarrow> (case env ''GIT_COMMIT'' of
                   Some v \<Rightarrow> Some v
                 | None \<Rightarrow> None))"
    by (simp add: setDefaults_fields getDefaultConfig_fields split: option.splits)
  have 5: "BaseURL ?m =
     (case BaseURL config of
        Some v \<Rightarrow> Some v
      | None \<Rightarrow> (case env ''BASE_URL'' of
                   Some v \<Rightarrow> Some v
                 | None \<Rightarrow> Some ''api.iudex.ai''))"
    by (simp add: setDefaults_fields getDefaultConfig_fields split: option.splits)
  have 6: "APIKey (getDefaultConfig env) =
     (case env ''API_KEY'' of Some v \<Rightarrow> Some v | None \<Rightarrow> None)"
    by (simp add: getDefaultConfig_fields split: option.splits)
  have 7: "PublicAPIKey (getDefaultConfig env) =
     (case env ''PUBLIC_API_KEY'' of Some v \<Rightarrow> Some v | None \<Rightarrow> None)"
    by (simp add: getDefaultConfig_fields split: option.splits)
  have 8: "setupOTelSDK s env config w = setupOTelSDK s env ?m w"
    by (simp only: setupOTelSDK_merged)
  have 9: "\<exists>tp lp.
          tracerProvider w' = Some tp \<and> loggerProvider w' = Some lp
          \<and> tp_resource tp = lp_resource lp
          \<and> te_endpoint (tp_batcher tp) = le_endpoint (lp_processor lp)
          \<and> tp_resource tp =
              [(''service.name'',
                 case ServiceName config of
                   Some v \<Rightarrow> v
                 | None \<Rightarrow> (case env ''SERVICE_NAME'' of
                              Some v \<Rightarrow> v
                            | None \<Rightarrow> ''default-service''))]
              @ (case InstanceID config of
                   Some v \<Rightarrow> [(''service.instance.id'', v)]
                 | None \<Rightarrow> (case env ''INSTANCE_ID'' of
                              Some v \<Rightarrow> [(''service.instance.id'', v)]
                            | None \<Rightarrow> []))
              @ [(''env'',
                 case Env config of
                   Some v \<Rightarrow> v
                 | None \<Rightarrow> (case env ''ENVIRONMENT'' of
                              Some v \<Rightarrow> v
                            | None \<Rightarrow> ''development''))]
              @ (case GitCommit config of
                   Some v \<Rightarrow> [(''git.commit'', v)]
                 | None \<Rightarrow> (case env ''GIT_COMMIT'' of
                              Some v \<Rightarrow> [(''git.commit'', v)]
                            | None \<Rightarrow> []))
              @ (case GitHubURL config of
                   Some v \<Rightarrow> [(''github.url'', v)]
                 | None \<Rightarrow> [])
          \<and> te_endpoint (tp_batcher tp) =
              (case BaseURL config of
                 Some v \<Rightarrow> v
               | None \<Rightarrow> (case env ''BASE_URL'' of
                            Some v \<Rightarrow> v
                          | None \<Rightarrow> ''api.iudex.ai''))"
    if ok: "setupOTelSDK s env config w = (shutdownFuncs, None, w')"
  proof -
    from setup_uses_merged [OF ok] obtain tp lp where
      reg: "tracerProvider w' = Some tp" "loggerProvider w' = Some lp"
      and res: "tp_resource tp = resourceAttributes ?m" "lp_resource lp = resourceAttributes ?m"
      and url: "te_endpoint (tp_batcher tp) =
                  (case BaseURL ?m of Some u \<Rightarrow> u | None \<Rightarrow> ''api.iudex.ai'')"
               "le_endpoint (lp_processor lp) =
                  (case BaseURL ?m of Some u \<Rightarrow> u | None \<Rightarrow> ''api.iudex.ai'')"
      by blast
    from res have r: "tp_resource tp = lp_resource lp" by simp
    from url have u: "te_endpoint (tp_batcher tp) = le_endpoint (lp_processor lp)" by simp
    from reg r u res(1) [unfolded resourceAttributes_merged] url(1) [unfolded endpoint_merged]
    show ?thesis by blast
  qed
  from 1 2 3 4 5 6 7 8 9 show ?thesis by blast
qed

theorem defaults_first_non_nil_wins_witness:
  "ServiceName mixedConfig = Some ''checkout''
   \<and> mixedEnv ''SERVICE_NAME'' = Some ''billing''
   \<and> InstanceID mixedConfig = None
   \<and> mixedEnv ''INSTANCE_ID'' = Some ''i-1''
   \<and> Env mixedConfig = None
   \<and> mixedEnv ''ENVIRONMENT'' = None
   \<and> BaseURL mixedConfig = None
   \<and> mixedEnv ''BASE_URL'' = Some ''collector.local''
   \<and> fst (snd (setupOTelSDK reliableSdk mixedEnv mixedConfig initialOtel)) = None
   \<and> (\<exists>tp lp.
         tracerProvider (snd (snd (setupOTelSDK reliableSdk mixedEnv mixedConfig initialOtel)))
           = Some tp
       \<and> loggerProvider (snd (snd (setupOTelSDK reliableSdk mixedEnv mixedConfig initialOtel)))
           = Some lp
       \<and> tp_resource tp = lp_resource lp
       \<and> te_endpoint (tp_batcher tp) = le_endpoint (lp_processor lp)
       \<and> tp_resource tp = [(''service.name'', ''checkout''), (''service.instance.id'', ''i-1''),
                            (''env'', ''development'')]
       \<and> te_endpoint (tp_batcher tp) = ''collector.local'')"
proof -
  let ?cfg = "setDefaults (getDefaultConfig mixedEnv) mixedConfig"
  let ?R = "setupOTelSDK reliableSdk mixedEnv mixedConfig initialOtel"
  have cfg: "?cfg = \<lparr>BaseURL = Some ''collector.local'', APIKey = Some ''secret'',
      PublicAPIKey = None, Headers = None, ServiceName = Some ''checkout'',
      InstanceID = Some ''i-1'', Env = Some ''development'', GitCommit = None,
      GitHubURL = None\<rparr>"
    by (simp add: setDefaults_def getDefaultConfig_def getEnv_def stringPtr_def Let_def
        mixedConfig_def mixedEnv_def emptyConfig_def)
  have r: "newResource reliableSdk ?cfg = Inr (resourceAttributes ?cfg)"
    by (simp add: newResource_def resource_New_def reliableSdk_def)
  have h: "newHeaders ?cfg = Inr [''x-api-key'' \<mapsto> ''secret'']"
    by (simp add: cfg newHeaders_def)
  have t: "\<exists>tp. newTraceProvider reliableSdk ?cfg (resourceAttributes ?cfg)
              [''x-api-key'' \<mapsto> ''secret''] = Inr tp"
    by (simp add: newTraceProvider_def otlptracehttp_New_def reliableSdk_def Let_def)
  have l: "\<exists>lp. newLoggerProvider reliableSdk ?cfg (resourceAttributes ?cfg)
              [''x-api-key'' \<mapsto> ''secret''] = Inr lp"
    by (simp add: newLoggerProvider_def otlploghttp_New_def reliableSdk_def Let_def)
  from t l setup_succeeds [OF r h, of _ _ initialOtel]
  have ok: "fst (snd ?R) = None" by auto
  then have R: "?R = (fst ?R, None, snd (snd ?R))"
    by (metis prod.collapse)
  have f: "ServiceName mixedConfig = Some ''checkout''" "InstanceID mixedConfig = None"
    "Env mixedConfig = None" "GitCommit mixedConfig = None" "GitHubURL mixedConfig = None"
    "BaseURL mixedConfig = None"
    by (simp_all add: mixedConfig_def emptyConfig_def)
  have e: "mixedEnv ''SERVICE_NAME'' = Some ''billing''" "mixedEnv ''INSTANCE_ID'' = Some ''i-1''"
    "mixedEnv ''ENVIRONMENT'' = None" "mixedEnv ''GIT_COMMIT'' = None"
    "mixedEnv ''BASE_URL'' = Some ''collector.local''"
    by (simp_all add: mixedEnv_def)
  note used = defaults_first_non_nil_wins [where s = reliableSdk and env = mixedEnv
      and config = mixedConfig and w = initialOtel and shutdownFuncs = "fst ?R"
      and w' = "snd (snd ?R)", THEN conjunct2, THEN conjunct2, THEN conjunct2, THEN conjunct2,
      THEN conjunct2, THEN conjunct2, THEN conjunct2, THEN conjunct2, THEN mp, OF R]
  from used have ex: "\<exists>tp lp.
         tracerProvider (snd (snd ?R)) = Some tp
       \<and> loggerProvider (snd (snd ?R)) = Some lp
       \<and> tp_resource tp = lp_resource lp
       \<and> te_endpoint (tp_batcher tp) = le_endpoint (lp_processor lp)
       \<and> tp_resource tp = [(''service.name'', ''checkout''), (''service.instance.id'', ''i-1''),
                            (''env'', ''development'')]
       \<and> te_endpoint (tp_batcher tp) = ''collector.local''"
    by (simp add: f e)
  from f(1) e(1) f(2) e(2) f(3) e(3) f(6) e(5) ok ex show ?thesis
    by (intro conjI)
qed

section \<open>Calling shutdown twice\<close>

lemma shutdown_clears: "shutdown shutdownFuncs w = (err, shutdownFuncs', w') \<Longrightarrow> shutdownFuncs' = []"
  by (auto simp add: shutdown_def split: prod.splits)

text \<open>
  C7. Take the \<^verbatim>\<open>shutdown\<close> function returned by \<^verbatim>\<open>setupOTelSDK\<close> and invoke it
  twice, in global states \<open>w1\<close> and \<open>w2\<close>. After the first invocation the list of
  cleanup functions is empty; the second invocation therefore calls no cleanup
  function, returns nil and leaves the global state as it found it.
\<close>

theorem shutdown_twice:
  "(case setupOTelSDK s env config w of
      (shutdownFuncs, err, w0) \<Rightarrow>
        (case shutdown shutdownFuncs w1 of
           (err1, shutdownFuncs1, w1') \<Rightarrow>
             shutdownFuncs1 = [] \<and> shutdown shutdownFuncs1 w2 = (None, [], w2)))"
  by (auto simp add: shutdown_Nil split: prod.splits dest: shutdown_clears)

section \<open>What the defaults depend on\<close>

text \<open>
  C8. Two environments that agree on \<^verbatim>\<open>BASE_URL\<close>, \<^verbatim>\<open>API_KEY\<close>,
  \<^verbatim>\<open>PUBLIC_API_KEY\<close>, \<^verbatim>\<open>SERVICE_NAME\<close>, \<^verbatim>\<open>INSTANCE_ID\<close>, \<^verbatim>\<open>ENVIRONMENT\<close>
  and \<^verbatim>\<open>GIT_COMMIT\<close> give equal results of \<^verbatim>\<open>getDefaultConfig\<close>.
\<close>

theorem getDefaultConfig_reads_seven_variables:
  assumes "env1 ''BASE_URL'' = env2 ''BASE_URL''"
    and "env1 ''API_KEY'' = env2 ''API_KEY''"
    and "env1 ''PUBLIC_API_KEY'' = env2 ''PUBLIC_API_KEY''"
    and "env1 ''SERVICE_NAME'' = env2 ''SERVICE_NAME''"
    and "env1 ''INSTANCE_ID'' = env2 ''INSTANCE_ID''"
    and "env1 ''ENVIRONMENT'' = env2 ''ENVIRONMENT''"
    and "env1 ''GIT_COMMIT'' = env2 ''GIT_COMMIT''"
  shows "getDefaultConfig env1 = getDefaultConfig env2"
  using assms by (simp add: getDefaultConfig_def getEnv_def)

theorem getDefaultConfig_reads_seven_variables_witness:
  "[''API_KEY'' \<mapsto> ''secret'', ''HOME'' \<mapsto> ''/root''] ''HOME'' = Some ''/root''
   \<and> [''API_KEY'' \<mapsto> ''secret'', ''PATH'' \<mapsto> ''/bin''] ''HOME'' = None
   \<and> getDefaultConfig [''API_KEY'' \<mapsto> ''secret'', ''HOME'' \<mapsto> ''/root'']
     = getDefaultConfig [''API_KEY'' \<mapsto> ''secret'', ''PATH'' \<mapsto> ''/bin'']"
  using getDefaultConfig_reads_seven_variables
    [of "[''API_KEY'' \<mapsto> ''secret'', ''HOME'' \<mapsto> ''/root'']"
        "[''API_KEY'' \<mapsto> ''secret'', ''PATH'' \<mapsto> ''/bin'']"]
  by simp

section \<open>The Headers field\<close>

lemma setDefaults_Headers_update:
  "setDefaults d (c\<lparr>Headers := h\<rparr>) = (setDefaults d c)\<lparr>Headers := h\<rparr>"
  by (rule InstrumentationConfig.equality)
    (simp_all add: setDefaults_fields setDefaults_keys)

lemma constructors_ignore_Headers:
  "newHeaders (c\<lparr>Headers := h\<rparr>) = newHeaders c"
  "newResource s (c\<lparr>Headers := h\<rparr>) = newResource s c"
  "newTraceProvider s (c\<lparr>Headers := h\<rparr>) res hdrs = newTraceProvider s c res hdrs"
  "newLoggerProvider s (c\<lparr>Headers := h\<rparr>) res hdrs = newLoggerProvider s c res hdrs"
  by (simp_all add: newHeaders_def newResource_def resourceAttributes_def
      newTraceProvider_def newLoggerProvider_def Let_def split: option.splits)

text \<open>
  C9. Two configurations that differ only in \<^verbatim>\<open>Headers\<close> give the same outgoing
  header map, the same resource, and the same result of \<^verbatim>\<open>setupOTelSDK\<close>: the same
  error or success, the same registrations and the same cleanup functions.
\<close>

theorem headers_field_unused:
  "newHeaders (setDefaults (getDefaultConfig env) (config\<lparr>Headers := h\<rparr>))
     = newHeaders (setDefaults (getDefaultConfig env) config)
   \<and> newResource s (setDefaults (getDefaultConfig env) (config\<lparr>Headers := h\<rparr>))
     = newResource s (setDefaults (getDefaultConfig env) config)
   \<and> setupOTelSDK s env (config\<lparr>Headers := h\<rparr>) w = setupOTelSDK s env config w"
  by (simp only: setupOTelSDK_def Let_def setDefaults_Headers_update constructors_ignore_Headers
      simp_thms)

section \<open>Which absent fields fall back to the environment\<close>

text \<open>
  C6, as stated: every absent field, \<^verbatim>\<open>GitHubURL\<close> and \<^verbatim>\<open>Headers\<close> included,
  falls back to an environment-variable lookup. It fails for the zero configuration in
  an environment that sets \<^verbatim>\<open>GITHUB_URL\<close> and \<^verbatim>\<open>HEADERS\<close>: a lookup returns the
  values, yet both fields stay nil after defaulting and the resource gets no
  \<^verbatim>\<open>github.url\<close> attribute.
\<close>

theorem every_field_falls_back_counterexample:
  "getEnv ''GITHUB_URL'' None githubEnv = Some ''https://github.com/acme/shop''
   \<and> getEnv ''HEADERS'' None githubEnv = Some ''x-team=shop''
   \<and> GitHubURL emptyConfig = None
   \<and> Headers emptyConfig = None
   \<and> GitHubURL (setDefaults (getDefaultConfig githubEnv) emptyConfig) = None
   \<and> Headers (setDefaults (getDefaultConfig githubEnv) emptyConfig) = None
   \<and> resourceAttributes (setDefaults (getDefaultConfig githubEnv) emptyConfig)
     = [(''service.name'', ''default-service''), (''env'', ''development'')]"
  by (simp add: githubEnv_def getEnv_def emptyConfig_def setDefaults_def getDefaultConfig_def
      stringPtr_def resourceAttributes_def Let_def)

text \<open>
  C6, amended: each absent field among \<^verbatim>\<open>ServiceName\<close>, \<^verbatim>\<open>InstanceID\<close>,
  \<^verbatim>\<open>Env\<close>, \<^verbatim>\<open>GitCommit\<close> and \<^verbatim>\<open>BaseURL\<close> falls back to the lookup of its
  environment variable (with the hard-coded default where there is one);
  \<^verbatim>\<open>GitHubURL\<close> and \<^verbatim>\<open>Headers\<close> have no fallback and keep the caller's value in
  every environment.
\<close>

theorem absent_fields_fall_back:
  "(ServiceName config = None \<longrightarrow>
      ServiceName (setDefaults (getDefaultConfig env) config)
        = getEnv ''SERVICE_NAME'' (Some ''default-service'') env)
   \<and> (InstanceID config = None \<longrightarrow>
      InstanceID (setDefaults (getDefaultConfig env) config) = getEnv ''INSTANCE_ID'' None env)
   \<and> (Env config = None \<longrightarrow>
      Env (setDefaults (getDefaultConfig env) config)
        = getEnv ''ENVIRONMENT'' (Some ''development'') env)
   \<and> (GitCommit config = None \<longrightarrow>
      GitCommit (setDefaults (getDefaultConfig env) config) = getEnv ''GIT_COMMIT'' None env)
   \<and> (BaseURL config = None \<longrightarrow>
      BaseURL (setDefaults (getDefaultConfig env) config)
        = getEnv ''BASE_URL'' (Some ''api.iudex.ai'') env)
   \<and> GitHubURL (setDefaults (getDefaultConfig env) config) = GitHubURL config
   \<and> Headers (setDefaults (getDefaultConfig env) config) = Headers config"
  by (simp add: setDefaults_fields setDefaults_keys getDefaultConfig_fields getEnv_def
      split: option.splits)

theorem absent_fields_fall_back_witness:
  "ServiceName emptyConfig = None
   \<and> ServiceName (setDefaults (getDefaultConfig [''SERVICE_NAME'' \<mapsto> ''checkout'']) emptyConfig)
       = Some ''checkout''
   \<and> InstanceID emptyConfig = None
   \<and> InstanceID (setDefaults (getDefaultConfig [''SERVICE_NAME'' \<mapsto> ''checkout'']) emptyConfig)
       = None
   \<and> Env emptyConfig = None
   \<and> Env (setDefaults (getDefaultConfig [''SERVICE_NAME'' \<mapsto> ''checkout'']) emptyConfig)
       = Some ''development''
   \<and> GitCommit emptyConfig = None
   \<and> GitCommit (setDefaults (getDefaultConfig [''SERVICE_NAME'' \<mapsto> ''checkout'']) emptyConfig)
       = None
   \<and> BaseURL emptyConfig = None
   \<and> BaseURL (setDefaults (getDefaultConfig [''SERVICE_NAME'' \<mapsto> ''checkout'']) emptyConfig)
       = Some ''api.iudex.ai''"
  using absent_fields_fall_back [of emptyConfig "[''SERVICE_NAME'' \<mapsto> ''checkout'']"]
  by (simp add: emptyConfig_def getEnv_def)

section \<open>A key variable set to the empty string\<close>

text \<open>
  C10. \<^verbatim>\<open>getEnv\<close> returns a non-nil pointer to the empty string for a variable set
  to the empty string, \<^verbatim>\<open>getDefaultConfig\<close> puts it in \<^verbatim>\<open>PublicAPIKey\<close>, and
  \<^verbatim>\<open>newHeaders\<close> accepts such a key. Yet \<^verbatim>\<open>setupOTelSDK\<close> with the zero
  configuration fails in an environment that sets \<^verbatim>\<open>PUBLIC_API_KEY\<close> (or
  \<^verbatim>\<open>API_KEY\<close>) to the empty string, with the missing-key error of \<^verbatim>\<open>newHeaders\<close>:
  the two key fields of the defaults are never copied into the configuration.
\<close>

theorem empty_env_key_setup_fails:
  "getEnv ''PUBLIC_API_KEY'' None [''PUBLIC_API_KEY'' \<mapsto> ''''] = Some ''''
   \<and> PublicAPIKey (getDefaultConfig [''PUBLIC_API_KEY'' \<mapsto> '''']) = Some ''''
   \<and> newHeaders (getDefaultConfig [''PUBLIC_API_KEY'' \<mapsto> ''''])
       = Inr [''x-write-only-api-key'' \<mapsto> '''']
   \<and> setupOTelSDK reliableSdk [''PUBLIC_API_KEY'' \<mapsto> ''''] emptyConfig initialOtel
       = ([], Some (joinError [errorString
              ''PUBLIC_WRITE_ONLY_IUDEX_API_KEY environment variable is missing or empty'']),
          initialOtel\<lparr>textMapPropagator := Some newPropagator\<rparr>)
   \<and> setupOTelSDK reliableSdk [''API_KEY'' \<mapsto> ''''] emptyConfig initialOtel
       = ([], Some (joinError [errorString
              ''PUBLIC_WRITE_ONLY_IUDEX_API_KEY environment variable is missing or empty'']),
          initialOtel\<lparr>textMapPropagator := Some newPropagator\<rparr>)"
proof -
  have 1: "getEnv ''PUBLIC_API_KEY'' None [''PUBLIC_API_KEY'' \<mapsto> ''''] = Some ''''"
    by (simp add: getEnv_def)
  have 2: "PublicAPIKey (getDefaultConfig [''PUBLIC_API_KEY'' \<mapsto> '''']) = Some ''''"
    by (simp add: getDefaultConfig_fields)
  have 3: "newHeaders (getDefaultConfig [''PUBLIC_API_KEY'' \<mapsto> ''''])
       = Inr [''x-write-only-api-key'' \<mapsto> '''']"
    by (simp add: newHeaders_def getDefaultConfig_fields)
  have r: "newResource reliableSdk c = Inr (resourceAttributes c)" for c
    by (simp add: newResource_def resource_New_def reliableSdk_def)
  have 4: "setupOTelSDK reliableSdk env emptyConfig initialOtel
       = ([], Some (joinError [errorString
              ''PUBLIC_WRITE_ONLY_IUDEX_API_KEY environment variable is missing or empty'']),
          initialOtel\<lparr>textMapPropagator := Some newPropagator\<rparr>)" for env
    by (simp add: setupOTelSDK_def Let_def r handleErr_Nil newHeaders_no_keys setDefaults_keys
        emptyConfig_def)
  from 1 2 3 4 show ?thesis by blast
qed

end
